theory Spec2Isabelle
  imports Complex_Main
begin

section \<open>Python exceptions as values\<close>

text \<open>
  The loss layer of \<^verbatim>\<open>src/metrics/loss_functions.py\<close> is embedded with every
  exception as a value: a call returns \<open>Inl e\<close> where the Python raises \<open>e\<close>, and
  \<open>Inr v\<close> where it returns \<open>v\<close>. Floating-point numbers are idealised as real numbers.
\<close>

datatype pyerr =
    ValueError | IndexError | KeyError | TypeError | RuntimeError | ZeroDivisionError

section \<open>CombinedLoss\<close>

text \<open>
  \<^verbatim>\<open>
  def forward(self, inputs, targets):
      loss = 0
      for i, loss_fn in enumerate(self.loss_fns):
          loss += self.weights[i] * loss_fn(inputs, targets)
      return loss
  \<close>
  The loop carries the index \<open>i\<close> and the accumulator. \<open>self.weights[i]\<close> is
  evaluated before the sub-loss is called, so a missing weight raises IndexError first.
  Loss values live in a real vector space (scalars, or tensors of one shape).
\<close>

fun CombinedLoss_loop ::
  "('i \<Rightarrow> 't \<Rightarrow> pyerr + 'v) list \<Rightarrow> real list \<Rightarrow> nat \<Rightarrow> 'i \<Rightarrow> 't \<Rightarrow> 'v \<Rightarrow> pyerr + ('v::real_vector)"
where
  "CombinedLoss_loop [] weights i inputs targets loss = Inr loss"
| "CombinedLoss_loop (loss_fn # rest) weights i inputs targets loss =
     (if i < length weights then
        (case loss_fn inputs targets of
           Inl e \<Rightarrow> Inl e
         | Inr l \<Rightarrow> CombinedLoss_loop rest weights (Suc i) inputs targets
                     (loss + (weights ! i) *\<^sub>R l))
      else Inl IndexError)"

definition CombinedLoss_forward ::
  "('i \<Rightarrow> 't \<Rightarrow> pyerr + 'v) list \<Rightarrow> real list \<Rightarrow> 'i \<Rightarrow> 't \<Rightarrow> pyerr + ('v::real_vector)"
where
  "CombinedLoss_forward loss_fns weights inputs targets =
     CombinedLoss_loop loss_fns weights 0 inputs targets 0"

section \<open>Tensors\<close>

text \<open>
  A tensor is its shape and its elements in row-major order; a well-formed tensor has
  as many elements as the product of its shape. A 0-dimensional tensor (a scalar) has
  shape \<open>[]\<close> and one element. Floats are idealised as reals, integer class indices
  are \<open>int\<close>, validity masks are \<open>bool\<close>. Where float arithmetic gives NaN or an
  infinity (a division by zero, the mean of no element), the model has the value of
  HOL's total operations; no theorem below depends on such a value unless it says so.
\<close>

datatype 'a tensor = Tensor (shape: "nat list") (data: "'a list")

definition wf_tensor :: "'a tensor \<Rightarrow> bool" where
  "wf_tensor t = (length (data t) = prod_list (shape t))"

definition numel :: "'a tensor \<Rightarrow> nat" where
  "numel t = prod_list (shape t)"

definition tmap :: "('a \<Rightarrow> 'b) \<Rightarrow> 'a tensor \<Rightarrow> 'b tensor" where
  "tmap f t = Tensor (shape t) (map f (data t))"

text \<open>\<open>rows n c xs\<close>: the \<open>n\<close> rows of length \<open>c\<close> of a flat \<open>(n, c)\<close> matrix.\<close>

definition rows :: "nat \<Rightarrow> nat \<Rightarrow> 'a list \<Rightarrow> 'a list list" where
  "rows n c xs = map (\<lambda>i. take c (drop (i * c) xs)) [0..<n]"

subsection \<open>Broadcasting of elementwise operations\<close>

text \<open>
  Shapes are aligned at the trailing axis (the shorter is padded with leading 1s); two
  sizes are compatible when they are equal or one of them is 1; incompatible sizes raise
  RuntimeError.
\<close>

definition pad_shape :: "nat \<Rightarrow> nat list \<Rightarrow> nat list" where
  "pad_shape r s = replicate (r - length s) 1 @ s"

fun broadcast_dims :: "nat list \<Rightarrow> nat list \<Rightarrow> nat list option" where
  "broadcast_dims [] [] = Some []"
| "broadcast_dims (a # as) (b # bs) =
     (if a = b \<or> b = 1 then map_option ((#) a) (broadcast_dims as bs)
      else if a = 1 then map_option ((#) b) (broadcast_dims as bs)
      else None)"
| "broadcast_dims _ _ = None"

fun expand_to :: "nat list \<Rightarrow> nat list \<Rightarrow> 'a list \<Rightarrow> 'a list" where
  "expand_to (d # ds) (e # es) xs =
     (if d = e then concat (map (expand_to ds es) (rows d (prod_list ds) xs))
      else concat (replicate e (expand_to ds es (take (prod_list ds) xs))))"
| "expand_to _ _ xs = xs"

definition tbinop :: "('a \<Rightarrow> 'b \<Rightarrow> 'c) \<Rightarrow> 'a tensor \<Rightarrow> 'b tensor \<Rightarrow> pyerr + 'c tensor" where
  "tbinop f a b =
     (let r = max (length (shape a)) (length (shape b));
          sa = pad_shape r (shape a);
          sb = pad_shape r (shape b)
      in case broadcast_dims sa sb of
           None \<Rightarrow> Inl RuntimeError
         | Some s \<Rightarrow> Inr (Tensor s (map2 f (expand_to sa s (data a)) (expand_to sb s (data b)))))"

subsection \<open>Reductions\<close>

definition tmean :: "real tensor \<Rightarrow> real tensor" where
  "tmean t = Tensor [] [sum_list (data t) / real (length (data t))]"

definition tsum :: "real tensor \<Rightarrow> real tensor" where
  "tsum t = Tensor [] [sum_list (data t)]"

section \<open>Ground truth\<close>

text \<open>
  The second argument of a masked loss is a bare tensor or a sequence. By position, the
  first element of a sequence is the target and the second the mask; what follows is
  unconstrained. \<open>GT_SeqN t m x xs\<close> is a sequence of \<open>3 + length xs\<close> elements.
\<close>

datatype ('t, 'm, 'x) ground_truth =
    GT_Tensor 't
  | GT_Seq0
  | GT_Seq1 't
  | GT_Seq2 't 'm
  | GT_SeqN 't 'm 'x "'x list"

fun len_gt :: "('t, 'm, 'x) ground_truth \<Rightarrow> nat option" where
  "len_gt (GT_Tensor t) = None"
| "len_gt GT_Seq0 = Some 0"
| "len_gt (GT_Seq1 t) = Some 1"
| "len_gt (GT_Seq2 t m) = Some 2"
| "len_gt (GT_SeqN t m x xs) = Some (3 + length xs)"

section \<open>MaskedContrastiveLoss\<close>

text \<open>
  \<^verbatim>\<open>
  def forward(self, logits, ground_truth):
      if type(ground_truth) == torch.Tensor:
          target = ground_truth; mask = None
      elif len(ground_truth) == 1:
          target = ground_truth[0]; mask = None
      else:
          target = ground_truth[0]
          mask = ground_truth[1].to(torch.float32)
      loss = - self.pos_weight * target * logits + (1 - target) * logits
      if mask is not None:
          loss = mask * loss
      if self.reduction == "mean":
          return loss.mean()
      return loss
  \<close>
  The \<open>else\<close> branch takes every sequence that has not exactly one element: the empty
  sequence fails at \<open>ground_truth[0]\<close>, a longer one is read at positions 0 and 1.
\<close>

fun MaskedContrastiveLoss_ground_truth ::
  "(real tensor, bool tensor, 'x) ground_truth \<Rightarrow> pyerr + (real tensor \<times> real tensor option)"
where
  "MaskedContrastiveLoss_ground_truth (GT_Tensor t) = Inr (t, None)"
| "MaskedContrastiveLoss_ground_truth (GT_Seq1 t) = Inr (t, None)"
| "MaskedContrastiveLoss_ground_truth GT_Seq0 = Inl IndexError"
| "MaskedContrastiveLoss_ground_truth (GT_Seq2 t m) =
     Inr (t, Some (tmap (\<lambda>b. if b then 1 else 0) m))"
| "MaskedContrastiveLoss_ground_truth (GT_SeqN t m x xs) =
     Inr (t, Some (tmap (\<lambda>b. if b then 1 else 0) m))"

definition bind_err :: "pyerr + 'a \<Rightarrow> ('a \<Rightarrow> pyerr + 'b) \<Rightarrow> pyerr + 'b" where
  "bind_err r f = (case r of Inl e \<Rightarrow> Inl e | Inr v \<Rightarrow> f v)"

definition MaskedContrastiveLoss_forward ::
  "real \<Rightarrow> string option \<Rightarrow> real tensor \<Rightarrow> (real tensor, bool tensor, 'x) ground_truth
     \<Rightarrow> pyerr + real tensor"
where
  "MaskedContrastiveLoss_forward pos_weight reduction logits ground_truth =
     bind_err (MaskedContrastiveLoss_ground_truth ground_truth) (\<lambda>(target, mask).
     bind_err (tbinop (*) (tmap (\<lambda>t. - pos_weight * t) target) logits) (\<lambda>pos.
     bind_err (tbinop (*) (tmap (\<lambda>t. 1 - t) target) logits) (\<lambda>neg.
     bind_err (tbinop (+) pos neg) (\<lambda>loss.
     bind_err (case mask of None \<Rightarrow> Inr loss | Some m \<Rightarrow> tbinop (*) m loss) (\<lambda>loss.
       if reduction = Some ''mean'' then Inr (tmean loss) else Inr loss)))))"

section \<open>Tensor operations used by the classification losses\<close>

text \<open>\<open>t.reshape(-1, 1)\<close> and \<open>t.reshape(-1)\<close>: they succeed on every tensor.\<close>

definition reshape_col :: "'a tensor \<Rightarrow> 'a tensor" where
  "reshape_col t = Tensor [numel t, 1] (data t)"

definition flatten :: "'a tensor \<Rightarrow> 'a tensor" where
  "flatten t = Tensor [numel t] (data t)"

text \<open>\<open>t.shape[-1]\<close>: IndexError on a 0-dimensional tensor.\<close>

definition last_dim :: "'a tensor \<Rightarrow> pyerr + nat" where
  "last_dim t = (if shape t = [] then Inl IndexError else Inr (last (shape t)))"

text \<open>
  \<open>t.reshape(-1, c)\<close>: RuntimeError when \<open>c = 0\<close> (the free dimension is ambiguous
  or the shape is invalid) and when the number of elements is not a multiple of \<open>c\<close>.
\<close>

definition reshape_rows :: "nat \<Rightarrow> 'a tensor \<Rightarrow> pyerr + 'a tensor" where
  "reshape_rows c t =
     (if c = 0 then Inl RuntimeError
      else if numel t mod c = 0 then Inr (Tensor [numel t div c, c] (data t))
      else Inl RuntimeError)"

text \<open>
  \<open>t.unsqueeze(-1)\<close> (and \<open>unsqueeze(1)\<close> on a 1-dimensional tensor): a trailing axis
  of size 1.
\<close>

definition unsqueeze_last :: "'a tensor \<Rightarrow> 'a tensor" where
  "unsqueeze_last t = Tensor (shape t @ [1]) (data t)"

text \<open>
  \<open>t[m]\<close> for a boolean tensor \<open>m\<close>: the shape of \<open>m\<close> must be the leading part of
  the shape of \<open>t\<close> (IndexError otherwise, also when \<open>m\<close> has more axes than \<open>t\<close>);
  the result lists the sub-tensors of \<open>t\<close> at the true positions of \<open>m\<close>.
\<close>

definition bool_index :: "'a tensor \<Rightarrow> bool tensor \<Rightarrow> pyerr + 'a tensor" where
  "bool_index t m =
     (let k = length (shape m) in
      if k \<le> length (shape t) \<and> take k (shape t) = shape m then
        (let rest = drop k (shape t);
             sel = map fst (filter snd (zip (rows (numel m) (prod_list rest) (data t)) (data m)))
         in Inr (Tensor (length sel # rest) (concat sel)))
      else Inl IndexError)"

text \<open>
  \<open>t.repeat(1, ..., 1, n)\<close> with \<open>r\<close> arguments: RuntimeError when \<open>t\<close> has more than
  \<open>r\<close> axes; otherwise the shape is padded with leading 1s to \<open>r\<close> axes and the
  trailing axis is tiled \<open>n\<close> times.
\<close>

definition repeat_last :: "nat \<Rightarrow> nat \<Rightarrow> 'a tensor \<Rightarrow> pyerr + 'a tensor" where
  "repeat_last r n t =
     (if r < length (shape t) then Inl RuntimeError
      else (case pad_shape r (shape t) of
              [] \<Rightarrow> Inr t
            | d # ds \<Rightarrow>
                (let lead = butlast (d # ds); c = last (d # ds)
                 in Inr (Tensor (lead @ [c * n])
                      (concat (map (\<lambda>row. concat (replicate n row))
                                   (rows (prod_list lead) c (data t))))))))"

text \<open>
  \<open>log_softmax\<close> and \<open>softmax\<close> over axis 1 (the trailing axis of a 2-dimensional
  tensor). The losses only call them with \<open>dim=1\<close>, or on tensors they have just
  reshaped to two axes; with \<open>dim=1\<close> a tensor of fewer than two axes raises IndexError.
\<close>

definition log_softmax_row :: "real list \<Rightarrow> real list" where
  "log_softmax_row xs = map (\<lambda>x. x - ln (sum_list (map exp xs))) xs"

definition softmax_row :: "real list \<Rightarrow> real list" where
  "softmax_row xs = map (\<lambda>x. exp x / sum_list (map exp xs)) xs"

definition map_rows :: "('a list \<Rightarrow> 'b list) \<Rightarrow> 'a tensor \<Rightarrow> pyerr + 'b tensor" where
  "map_rows f t =
     (case shape t of
        [n, c] \<Rightarrow> Inr (Tensor [n, c] (concat (map f (rows n c (data t)))))
      | _ \<Rightarrow> Inl IndexError)"

definition log_softmax :: "real tensor \<Rightarrow> pyerr + real tensor" where
  "log_softmax t = map_rows log_softmax_row t"

definition softmax :: "real tensor \<Rightarrow> pyerr + real tensor" where
  "softmax t = map_rows softmax_row t"

text \<open>
  \<open>input.gather(1, index)\<close> on a 2-dimensional input. An index with no element is
  not checked at all: the result is the empty tensor of the shape of the index.
  Otherwise the index must have two axes too and at most as many rows as the input,
  and every index must be a column of the input (RuntimeError otherwise);
  \<open>out[i][j] = input[i][index[i][j]]\<close>.
\<close>

definition gather_dim1 :: "'a tensor \<Rightarrow> int tensor \<Rightarrow> pyerr + 'a tensor" where
  "gather_dim1 inp idx =
     (if data idx = [] then Inr (Tensor (shape idx) [])
      else (case (shape inp, shape idx) of
        ([n, c], [k, j]) \<Rightarrow>
          (if k \<le> n \<and> list_all (\<lambda>v. 0 \<le> v \<and> v < int c) (data idx) then
             Inr (Tensor [k, j]
               (concat (map2 (\<lambda>row ixs. map (\<lambda>v. row ! nat v) ixs)
                             (rows n c (data inp)) (rows k j (data idx)))))
           else Inl RuntimeError)
      | _ \<Rightarrow> Inl RuntimeError))"

text \<open>\<open>alpha.gather(0, index)\<close> for the 1-dimensional class-weight vector \<open>alpha\<close>.\<close>

definition gather_dim0 :: "'a list \<Rightarrow> int tensor \<Rightarrow> pyerr + 'a tensor" where
  "gather_dim0 alpha idx =
     (if length (shape idx) = 1 \<and> list_all (\<lambda>v. 0 \<le> v \<and> v < int (length alpha)) (data idx)
      then Inr (Tensor (shape idx) (map (\<lambda>v. alpha ! nat v) (data idx)))
      else Inl RuntimeError)"

text \<open>\<open>t[:, j]\<close> on a 2-dimensional tensor: IndexError when there is no column \<open>j\<close>.\<close>

definition column :: "nat \<Rightarrow> 'a tensor \<Rightarrow> pyerr + 'a tensor" where
  "column j t =
     (case shape t of
        [n, c] \<Rightarrow> if j < c then Inr (Tensor [n] (map (\<lambda>row. row ! j) (rows n c (data t))))
                  else Inl IndexError
      | _ \<Rightarrow> Inl IndexError)"

text \<open>
  \<open>x ** gamma\<close> on floats: 1 when the exponent is 0, whatever the base. (For a
  negative base, or base 0 with a negative exponent, floats give NaN or an infinity.)
\<close>

definition pow_f :: "real \<Rightarrow> real \<Rightarrow> real" where
  "pow_f x g = (if g = 0 then 1 else x powr g)"

text \<open>
  The first lines of \<open>FocalLoss.forward\<close> and \<open>FocalTverskyLoss.forward\<close>:
  \<^verbatim>\<open>
  if input.dim() > 2:
      input = input.view(input.size(0), input.size(1), -1)  # N,C,H,W => N,C,H*W
      input = input.transpose(1, 2)  # N,C,H*W => N,H*W,C
      input = input.contiguous().view(-1, input.size(2))  # N,H*W,C => N*H*W,C
  \<close>
  The class axis is axis 1. The first \<open>view\<close> raises RuntimeError when \<open>N * C = 0\<close>.
\<close>

definition channels_to_last :: "'a tensor \<Rightarrow> pyerr + 'a tensor" where
  "channels_to_last input =
     (case shape input of
        n # c # d # ds \<Rightarrow>
          (let l = prod_list (d # ds) in
           if n * c = 0 then Inl RuntimeError
           else Inr (Tensor [n * l, c]
                  (concat (map (\<lambda>i. concat (map (\<lambda>j. map (\<lambda>k. data input ! ((i * c + k) * l + j))
                                                        [0..<c]) [0..<l])) [0..<n]))))
      | _ \<Rightarrow> Inr input)"

section \<open>Ground-truth normalisation of the cross-entropy, focal and Dice losses\<close>

text \<open>
  \<open>MaskedCrossEntropyLoss.forward\<close>, \<open>MaskedFocalLoss.forward\<close> and
  \<open>MaskedDiceLoss.forward\<close> each start with the same lines:
  \<^verbatim>\<open>
  if type(ground_truth) == torch.Tensor:
      target = ground_truth; mask = None
  elif len(ground_truth) == 1:
      target = ground_truth[0]; mask = None
  elif len(ground_truth) == 2:
      target, mask = ground_truth
  else:
      raise ValueError("ground_truth parameter for MaskedCrossEntropyLoss is ...")
  \<close>
\<close>

fun target_and_mask :: "('t, 'm, 'x) ground_truth \<Rightarrow> pyerr + ('t \<times> 'm option)" where
  "target_and_mask (GT_Tensor t) = Inr (t, None)"
| "target_and_mask (GT_Seq1 t) = Inr (t, None)"
| "target_and_mask (GT_Seq2 t m) = Inr (t, Some m)"
| "target_and_mask GT_Seq0 = Inl ValueError"
| "target_and_mask (GT_SeqN t m x xs) = Inl ValueError"

section \<open>MaskedBinaryCrossEntropy\<close>

text \<open>
  \<^verbatim>\<open>
  def forward(self, logits, ground_truth):
      if type(ground_truth) == torch.Tensor:
          target = ground_truth
      elif len(ground_truth) == 1:
          target = ground_truth[0]
      else:
          target = ground_truth[0][ground_truth[1]]
          logits = logits[ground_truth[1]]
      return self.loss_fn(logits, target)
  \<close>
  \<open>self.loss_fn\<close> is the framework's \<open>BCEWithLogitsLoss\<close>, a parameter here.
\<close>

fun MaskedBinaryCrossEntropy_forward ::
  "(real tensor \<Rightarrow> real tensor \<Rightarrow> pyerr + 'r) \<Rightarrow> real tensor
     \<Rightarrow> (real tensor, bool tensor, 'x) ground_truth \<Rightarrow> pyerr + 'r"
where
  "MaskedBinaryCrossEntropy_forward loss_fn logits (GT_Tensor t) = loss_fn logits t"
| "MaskedBinaryCrossEntropy_forward loss_fn logits (GT_Seq1 t) = loss_fn logits t"
| "MaskedBinaryCrossEntropy_forward loss_fn logits GT_Seq0 = Inl IndexError"
| "MaskedBinaryCrossEntropy_forward loss_fn logits (GT_Seq2 t m) =
     bind_err (bool_index t m) (\<lambda>target.
     bind_err (bool_index logits m) (\<lambda>logits. loss_fn logits target))"
| "MaskedBinaryCrossEntropy_forward loss_fn logits (GT_SeqN t m x xs) =
     bind_err (bool_index t m) (\<lambda>target.
     bind_err (bool_index logits m) (\<lambda>logits. loss_fn logits target))"

section \<open>MaskedCrossEntropyLoss\<close>

text \<open>
  \<open>self.mean\<close> is a boolean. With a mask, the rows of the flattened logits and the
  targets at the true positions are kept; then
  \<^verbatim>\<open>
  masked_log_probs_flat = torch.nn.functional.log_softmax(masked_logits_flat)
  masked_losses_flat = -torch.gather(masked_log_probs_flat, dim=1, index=masked_target_flat)
  if self.mean:
      return masked_losses_flat.mean()
  return masked_losses_flat
  \<close>
\<close>

definition MaskedCrossEntropyLoss_forward ::
  "bool \<Rightarrow> real tensor \<Rightarrow> (int tensor, bool tensor, 'x) ground_truth \<Rightarrow> pyerr + real tensor"
where
  "MaskedCrossEntropyLoss_forward mean logits ground_truth =
     bind_err (target_and_mask ground_truth) (\<lambda>(target, mask).
     bind_err (case mask of
         Some m \<Rightarrow>
           (let mask_flat = reshape_col m in
            bind_err (last_dim logits) (\<lambda>nclasses.
            bind_err (reshape_rows nclasses logits) (\<lambda>logits_flat.
            bind_err (repeat_last 2 nclasses mask_flat) (\<lambda>rep.
            bind_err (bool_index logits_flat rep) (\<lambda>sel.
            bind_err (reshape_rows nclasses sel) (\<lambda>masked_logits_flat.
            bind_err (bool_index (reshape_col target) mask_flat) (\<lambda>sel_t.
              Inr (masked_logits_flat, unsqueeze_last sel_t))))))))
       | None \<Rightarrow>
           bind_err (last_dim logits) (\<lambda>nclasses.
           bind_err (reshape_rows nclasses logits) (\<lambda>masked_logits_flat.
             Inr (masked_logits_flat, reshape_col target))))
       (\<lambda>(masked_logits_flat, masked_target_flat).
     bind_err (log_softmax masked_logits_flat) (\<lambda>masked_log_probs_flat.
     bind_err (gather_dim1 masked_log_probs_flat masked_target_flat) (\<lambda>g.
       (let masked_losses_flat = tmap uminus g in
        if mean then Inr (tmean masked_losses_flat) else Inr masked_losses_flat)))))"

section \<open>MaskedFocalLoss and FocalLoss\<close>

text \<open>
  Both constructors turn the configured \<open>alpha\<close> into a tensor:
  \<^verbatim>\<open>
  if isinstance(alpha, (float, int)): self.alpha = torch.Tensor([alpha, 1 - alpha])
  if isinstance(alpha, list): self.alpha = torch.Tensor(alpha)
  \<close>
\<close>

datatype alpha_cfg = AlphaNum real | AlphaList "real list"

fun alpha_tensor :: "alpha_cfg option \<Rightarrow> real list option" where
  "alpha_tensor None = None"
| "alpha_tensor (Some (AlphaNum a)) = Some [a, 1 - a]"
| "alpha_tensor (Some (AlphaList as)) = Some as"

text \<open>
  \<^verbatim>\<open>
  target = target.reshape(-1, 1).to(torch.int64)
  logits = logits.reshape(-1, logits.shape[-1])
  if mask is not None:
      mask = mask.reshape(-1, 1)
      target = target[mask]
      logits = logits[mask.repeat(1, logits.shape[-1])].reshape(-1, logits.shape[-1])
  logpt = F.log_softmax(logits, dim=-1)
  logpt = logpt.gather(-1, target.unsqueeze(-1))
  logpt = logpt.reshape(-1)
  pt = logpt.exp()
  if self.alpha is not None:
      at = self.alpha.gather(0, target.data.view(-1))
      logpt = logpt * Variable(at)
  loss = -1 * (1 - pt) ** self.gamma * logpt
  if self.reduction is None: return loss
  elif self.reduction == "mean": return loss.mean()
  elif self.reduction == "sum": return loss.sum()
  else: raise ValueError(...)
  \<close>
  The reduction is \<open>None\<close> (Python's \<open>None\<close>) or \<open>Some s\<close> for a string \<open>s\<close>.
  Without a mask the target keeps its two axes, \<open>unsqueeze\<close> gives it a third, and
  \<open>gather\<close> refuses a non-empty index with more axes than its input.
\<close>

definition MaskedFocalLoss_forward ::
  "real \<Rightarrow> real list option \<Rightarrow> string option \<Rightarrow> real tensor
     \<Rightarrow> (int tensor, bool tensor, 'x) ground_truth \<Rightarrow> pyerr + real tensor"
where
  "MaskedFocalLoss_forward gamma alpha reduction logits ground_truth =
     bind_err (target_and_mask ground_truth) (\<lambda>(target, mask).
     bind_err (last_dim logits) (\<lambda>c.
     bind_err (reshape_rows c logits) (\<lambda>logits.
     bind_err (case mask of
         None \<Rightarrow> Inr (reshape_col target, logits)
       | Some m \<Rightarrow>
           (let mask = reshape_col m in
            bind_err (bool_index (reshape_col target) mask) (\<lambda>target.
            bind_err (repeat_last 2 c mask) (\<lambda>rep.
            bind_err (bool_index logits rep) (\<lambda>sel.
            bind_err (reshape_rows c sel) (\<lambda>logits. Inr (target, logits)))))))
       (\<lambda>(target, logits).
     bind_err (log_softmax logits) (\<lambda>logpt.
     bind_err (gather_dim1 logpt (unsqueeze_last target)) (\<lambda>logpt.
       (let logpt = flatten logpt; pt = tmap exp logpt in
        bind_err (case alpha of
            None \<Rightarrow> Inr logpt
          | Some a \<Rightarrow> bind_err (gather_dim0 a (flatten target)) (\<lambda>a_t. tbinop (*) logpt a_t))
          (\<lambda>logpt.
        bind_err (tbinop (*) (tmap (\<lambda>p. - 1 * pow_f (1 - p) gamma) pt) logpt) (\<lambda>loss.
          if reduction = None then Inr loss
          else if reduction = Some ''mean'' then Inr (tmean loss)
          else if reduction = Some ''sum'' then Inr (tsum loss)
          else Inl ValueError)))))))))"

text \<open>
  \<^verbatim>\<open>
  def forward(self, input, target):
      if input.dim() > 2: ...          # N,C,H,W => N*H*W,C
      target = target.view(-1, 1)
      logpt = F.log_softmax(input, dim=1)
      logpt = logpt.gather(1, target)
      logpt = logpt.view(-1)
      pt = Variable(logpt.data.exp())
      if self.alpha is not None:
          at = self.alpha.gather(0, target.data.view(-1))
          logpt = logpt * Variable(at)
      loss = -1 * (1 - pt) ** self.gamma * logpt
      ...                              # the same reduction branches
  \<close>
\<close>

definition FocalLoss_forward ::
  "real \<Rightarrow> real list option \<Rightarrow> string option \<Rightarrow> real tensor \<Rightarrow> int tensor
     \<Rightarrow> pyerr + real tensor"
where
  "FocalLoss_forward gamma alpha reduction input target =
     bind_err (channels_to_last input) (\<lambda>input.
       (let target = reshape_col target in
        bind_err (log_softmax input) (\<lambda>logpt.
        bind_err (gather_dim1 logpt target) (\<lambda>logpt.
          (let logpt = flatten logpt; pt = tmap exp logpt in
           bind_err (case alpha of
               None \<Rightarrow> Inr logpt
             | Some a \<Rightarrow> bind_err (gather_dim0 a (flatten target)) (\<lambda>a_t. tbinop (*) logpt a_t))
             (\<lambda>logpt.
           bind_err (tbinop (*) (tmap (\<lambda>p. - 1 * pow_f (1 - p) gamma) pt) logpt) (\<lambda>loss.
             if reduction = None then Inr loss
             else if reduction = Some ''mean'' then Inr (tmean loss)
             else if reduction = Some ''sum'' then Inr (tsum loss)
             else Inl ValueError)))))))"

section \<open>MaskedDiceLoss\<close>

text \<open>
  \<^verbatim>\<open>
  target = target.reshape(-1).to(torch.int64)
  logits = logits.reshape(-1, logits.shape[-1])
  if mask is not None:
      mask = mask.reshape(-1, 1)
      target = target[mask]
      logits = logits[mask.repeat(1, logits.shape[-1])].reshape(-1, logits.shape[-1])
  if self.label_smoothing > 0.0:
      num_classes = logits.shape[-1]
      smoothing_value = self.label_smoothing / (num_classes - 1)
      target_onehot = torch.full((target.size(0), num_classes), smoothing_value, ...)
      target_onehot.scatter_(1, target.unsqueeze(1), 1.0 - self.label_smoothing)
  else:
      target_onehot = F.one_hot(target, num_classes=logits.shape[-1]).to(torch.float32)
  predicted_prob = F.softmax(logits, dim=-1)
  predicted_prob_pos = predicted_prob[:, 1]
  target_pos = target_onehot[:, 1]
  inter = (predicted_prob_pos * target_pos).sum()
  union = predicted_prob_pos.sum() + target_pos.sum()
  loss = 1 - 2 * inter / union
  \<close>
  followed by the reduction branches of the focal losses. \<open>one_hot\<close> and \<open>scatter_\<close>
  raise RuntimeError on a class index outside \<open>[0, num_classes)\<close>; the Python float
  division raises ZeroDivisionError when there is one class.
\<close>

definition one_hot_rows :: "real \<Rightarrow> real \<Rightarrow> nat \<Rightarrow> int tensor \<Rightarrow> pyerr + real tensor" where
  "one_hot_rows off on c target =
     (if list_all (\<lambda>v. 0 \<le> v \<and> v < int c) (data target) then
        Inr (Tensor [numel target, c]
          (concat (map (\<lambda>v. map (\<lambda>k. if k = nat v then on else off) [0..<c]) (data target))))
      else Inl RuntimeError)"

definition MaskedDiceLoss_forward ::
  "string option \<Rightarrow> real \<Rightarrow> real tensor \<Rightarrow> (int tensor, bool tensor, 'x) ground_truth
     \<Rightarrow> pyerr + real tensor"
where
  "MaskedDiceLoss_forward reduction label_smoothing logits ground_truth =
     bind_err (target_and_mask ground_truth) (\<lambda>(target, mask).
     bind_err (last_dim logits) (\<lambda>c.
     bind_err (reshape_rows c logits) (\<lambda>logits.
     bind_err (case mask of
         None \<Rightarrow> Inr (flatten target, logits)
       | Some m \<Rightarrow>
           (let mask = reshape_col m in
            bind_err (bool_index (flatten target) mask) (\<lambda>target.
            bind_err (repeat_last 2 c mask) (\<lambda>rep.
            bind_err (bool_index logits rep) (\<lambda>sel.
            bind_err (reshape_rows c sel) (\<lambda>logits. Inr (target, logits)))))))
       (\<lambda>(target, logits).
     bind_err (if label_smoothing > 0 then
                 (if c = 1 then Inl ZeroDivisionError
                  else one_hot_rows (label_smoothing / (real c - 1)) (1 - label_smoothing) c target)
               else one_hot_rows 0 1 c target) (\<lambda>target_onehot.
     bind_err (softmax logits) (\<lambda>predicted_prob.
     bind_err (column 1 predicted_prob) (\<lambda>predicted_prob_pos.
     bind_err (column 1 target_onehot) (\<lambda>target_pos.
     bind_err (tbinop (*) predicted_prob_pos target_pos) (\<lambda>prod.
       (let inter = sum_list (data prod);
            union = sum_list (data predicted_prob_pos) + sum_list (data target_pos);
            loss = Tensor [] [1 - 2 * inter / union]
        in if reduction = None then Inr loss
           else if reduction = Some ''mean'' then Inr (tmean loss)
           else if reduction = Some ''sum'' then Inr (tsum loss)
           else Inl ValueError))))))))))"

section \<open>FocalTverskyLoss\<close>

text \<open>
  \<^verbatim>\<open>
  if inputs.dim() > 2: ...             # as in FocalLoss
  inputs = F.softmax(inputs, dim=1)
  targets = targets.view(-1)
  TP = (inputs[:, 1] * targets).sum()
  FP = ((1-targets) * inputs[:, 1]).sum()
  FN = (targets * inputs[:, 0]).sum()
  Tversky = (TP + self.smooth) / (TP + self.alpha*FP + self.beta*FN + self.smooth)
  loss = (1 - Tversky)**self.gamma
  \<close>
  followed by the same reduction branches.
\<close>

definition FocalTverskyLoss_forward ::
  "real \<Rightarrow> real \<Rightarrow> real \<Rightarrow> real \<Rightarrow> string option \<Rightarrow> real tensor \<Rightarrow> int tensor
     \<Rightarrow> pyerr + real tensor"
where
  "FocalTverskyLoss_forward smooth alpha beta gamma reduction inputs targets =
     bind_err (channels_to_last inputs) (\<lambda>inputs.
     bind_err (softmax inputs) (\<lambda>inputs.
       (let targets = tmap real_of_int (flatten targets) in
        bind_err (column 1 inputs) (\<lambda>pos.
        bind_err (tbinop (*) pos targets) (\<lambda>tp.
        bind_err (tbinop (*) (tmap (\<lambda>t. 1 - t) targets) pos) (\<lambda>fp.
        bind_err (column 0 inputs) (\<lambda>neg.
        bind_err (tbinop (*) targets neg) (\<lambda>fn.
          (let TP = sum_list (data tp); FP = sum_list (data fp); FN = sum_list (data fn);
               Tversky = (TP + smooth) / (TP + alpha * FP + beta * FN + smooth);
               loss = Tensor [] [pow_f (1 - Tversky) gamma]
           in if reduction = None then Inr loss
              else if reduction = Some ''mean'' then Inr (tmean loss)
              else if reduction = Some ''sum'' then Inr (tsum loss)
              else Inl ValueError)))))))))"

section \<open>Reading a result\<close>


definition invalid_after :: "pyerr + 'a \<Rightarrow> pyerr + 'a" where
  "invalid_after r = (case r of Inl e \<Rightarrow> Inl e | Inr loss \<Rightarrow> Inl ValueError)"

section \<open>The loss factory\<close>

text \<open>
  The configuration is the nested mapping \<open>config['MODEL']\<close>, \<open>config['SOLVER']\<close>, typed
  by the fields \<open>get_loss\<close> reads. A field is \<open>None\<close> when its key is absent. Keys read
  through \<open>get_params_values\<close> are optional; \<open>pos_weight\<close> and \<open>class_weights\<close> are
  also read by subscript (KeyError when absent), and their value may be Python's
  \<open>None\<close>: \<open>Some None\<close>. \<open>loss_function\<close> is an identifier, or a list or tuple.
\<close>

datatype loss_function = LossName string | LossSeq "loss_function list"

record solver_config =
  loss_function :: "loss_function option"
  pos_weight :: "real option option"
  class_weights :: "(int \<times> real) list option option"
  label_smoothing :: "real option"
  gamma :: "real option"
  alpha :: "alpha_cfg option"
  smooth :: "real option"
  beta :: "real option"
  loss_weights :: "real list option"

record model_config =
  num_classes :: "int option"

record config =
  MODEL :: "model_config option"
  SOLVER :: "solver_config option"

text \<open>
  Modelled from the spec: \<open>get_params_values\<close> of \<open>deepsat.utils.config_files_utils\<close>,
  which is not among the sources. The spec calls it the single "get with default"
  accessor that makes every tunable optional in the configuration: the value of the
  key, or the default when the configuration has no value for it. It raises nothing, so
  the \<open>except ValueError\<close> around the lookup of \<open>alpha\<close> never fires.
\<close>

definition get_params_values :: "'a option \<Rightarrow> 'a \<Rightarrow> 'a" where
  "get_params_values v dflt = (case v of None \<Rightarrow> dflt | Some x \<Rightarrow> x)"

text \<open>
  What the factory returns: Python's \<open>None\<close>, a list, or a loss object with the
  attributes its constructor stores. \<open>CrossEntropyLoss\<close> and \<open>BCEWithLogitsLoss\<close> are
  the framework's classes.
\<close>

datatype 'd loss_obj =
    NoneValue
  | LossList "'d loss_obj list"
  | MaskedContrastiveLoss_obj "real option" "string option"
  | BCEWithLogitsLoss_obj "string option"
  | MaskedBinaryCrossEntropy_obj "string option" "real option"
  | CrossEntropyLoss_obj "real list option" "string option" real
  | MaskedCrossEntropyLoss_obj bool
  | FocalLoss_obj real "real list option" "string option"
  | MaskedFocalLoss_obj real "real list option" "string option"
  | MaskedDiceLoss_obj "string option" 'd real
  | FocalTverskyLoss_obj real alpha_cfg real real "string option"
  | CombinedLoss_obj "'d loss_obj list" "real list"

text \<open>
  \<^verbatim>\<open>
  weight = torch.Tensor(num_classes * [1.0]).to(device)
  if loss_config['class_weights'] not in [None, {}]:
      for key in loss_config['class_weights']:
          weight[key] = loss_config['class_weights'][key]
  \<close>
  \<open>None * [1.0]\<close> is a TypeError; a key outside \<open>[-n, n)\<close> is an IndexError.
\<close>

fun set_class_weights :: "real list \<Rightarrow> (int \<times> real) list \<Rightarrow> pyerr + real list" where
  "set_class_weights weight [] = Inr weight"
| "set_class_weights weight ((key, w) # rest) =
     (let n = int (length weight); j = (if key < 0 then n + key else key)
      in if 0 \<le> j \<and> j < n then set_class_weights (weight[nat j := w]) rest
         else Inl IndexError)"

text \<open>
  \<^verbatim>\<open>
  weight_1 = 1. / pos_weight
  weight_2 = 1.
  total_weight = weight_1 + weight_2
  weight_1 = weight_1 / total_weight
  weight_2 = weight_2 / total_weight
  weight = torch.tensor([weight_1, weight_2], dtype=torch.float32).to(device)
  \<close>
\<close>

definition pos_weight_pair :: "real \<Rightarrow> pyerr + real list" where
  "pos_weight_pair pw =
     (if pw = 0 then Inl ZeroDivisionError
      else (let weight_1 = 1 / pw; weight_2 = 1; total_weight = weight_1 + weight_2
            in if total_weight = 0 then Inl ZeroDivisionError
               else Inr [weight_1 / total_weight, weight_2 / total_weight]))"

text \<open>
  The chain of \<open>if\<close>/\<open>elif\<close> on a single identifier, in the order of the source. No
  branch matches an unknown identifier, and the function ends: it returns \<open>None\<close>.
\<close>

definition get_loss_named ::
  "model_config \<Rightarrow> solver_config \<Rightarrow> string \<Rightarrow> 'd \<Rightarrow> string option \<Rightarrow> pyerr + 'd loss_obj"
where
  "get_loss_named model_config loss_config name device reduction =
    (if name \<in> set [''contrastive_loss'', ''masked_contrastive_loss''] then
       Inr (MaskedContrastiveLoss_obj (get_params_values (pos_weight loss_config) (Some 1)) reduction)
     else if name = ''binary_cross_entropy'' then
       Inr (BCEWithLogitsLoss_obj (if reduction = None then Some ''none'' else reduction))
     else if name = ''masked_binary_cross_entropy'' then
       (case pos_weight loss_config of
          None \<Rightarrow> Inl KeyError
        | Some pw \<Rightarrow> Inr (MaskedBinaryCrossEntropy_obj reduction pw))
     else if name = ''cross_entropy'' then
       (case num_classes model_config of
          None \<Rightarrow> Inl TypeError
        | Some n \<Rightarrow>
            (case class_weights loss_config of
               None \<Rightarrow> Inl KeyError
             | Some cw \<Rightarrow>
                 bind_err (set_class_weights (replicate (nat n) 1)
                             (case cw of None \<Rightarrow> [] | Some kvs \<Rightarrow> kvs))
                   (\<lambda>weight. Inr (CrossEntropyLoss_obj (Some weight) reduction 0))))
     else if name = ''weight_cross_entropy'' then
       (let ls = get_params_values (label_smoothing loss_config) 0 in
        case pos_weight loss_config of
          None \<Rightarrow> Inl KeyError
        | Some None \<Rightarrow> Inr (CrossEntropyLoss_obj None reduction ls)
        | Some (Some pw) \<Rightarrow>
            bind_err (pos_weight_pair pw)
              (\<lambda>weight. Inr (CrossEntropyLoss_obj (Some weight) reduction ls)))
     else if name = ''masked_cross_entropy'' then
       Inr (MaskedCrossEntropyLoss_obj (reduction = Some ''mean''))
     else if name \<in> set [''focal_loss'', ''masked_focal_loss''] then
       (let g = get_params_values (gamma loss_config) 1; a = alpha loss_config in
        if name = ''focal_loss'' then Inr (FocalLoss_obj g (alpha_tensor a) reduction)
        else if name = ''masked_focal_loss'' then Inr (MaskedFocalLoss_obj g (alpha_tensor a) reduction)
        else Inr NoneValue)
     else if name = ''masked_dice_loss'' then
       Inr (MaskedDiceLoss_obj reduction device (get_params_values (label_smoothing loss_config) 0))
     else if name \<in> set [''tversky_loss'', ''focal_tversky_loss''] then
       Inr (FocalTverskyLoss_obj
              (get_params_values (smooth loss_config) 1)
              (get_params_values (alpha loss_config) (AlphaNum (1/2)))
              (get_params_values (beta loss_config) (1/2))
              (if name = ''tversky_loss'' then 1 else get_params_values (gamma loss_config) 1)
              reduction)
     else if name = ''combined_dice_ce'' then
       (let ls = get_params_values (label_smoothing loss_config) 0;
            weights = get_params_values (loss_weights loss_config) [1/2, 1/2] in
        case pos_weight loss_config of
          None \<Rightarrow> Inl KeyError
        | Some None \<Rightarrow>
            Inr (CombinedLoss_obj
                   [MaskedDiceLoss_obj reduction device 0, CrossEntropyLoss_obj None reduction ls]
                   weights)
        | Some (Some pw) \<Rightarrow>
            bind_err (pos_weight_pair pw) (\<lambda>weight.
              Inr (CombinedLoss_obj
                     [MaskedDiceLoss_obj reduction device 0,
                      CrossEntropyLoss_obj (Some weight) reduction ls]
                     weights)))
     else Inr NoneValue)"

text \<open>
  \<^verbatim>\<open>
  def get_loss(config, device, reduction='mean'):
      model_config = config['MODEL']
      loss_config = config['SOLVER']
      print(loss_config['loss_function'])
      if type(loss_config['loss_function']) in [list, tuple]:
          loss_fun = []
          loss_types = deepcopy(loss_config['loss_function'])
          config_ = deepcopy(config)
          for loss_fun_type in loss_types:
              config_['SOLVER']['loss_function'] = loss_fun_type
              loss_fun.append(get_loss(config_, device, reduction=reduction))
          return loss_fun
      ...
  \<close>
  The loop stops at the first element whose construction raises.
\<close>

fun collect :: "(pyerr + 'a) list \<Rightarrow> pyerr + 'a list" where
  "collect [] = Inr []"
| "collect (r # rs) =
     (case r of
        Inl e \<Rightarrow> Inl e
      | Inr v \<Rightarrow> (case collect rs of Inl e \<Rightarrow> Inl e | Inr vs \<Rightarrow> Inr (v # vs)))"

definition set_loss_function :: "config \<Rightarrow> loss_function \<Rightarrow> config" where
  "set_loss_function config t =
     config\<lparr>SOLVER := map_option (\<lambda>s. s\<lparr>loss_function := Some t\<rparr>) (SOLVER config)\<rparr>"

function get_loss :: "config \<Rightarrow> 'd \<Rightarrow> string option \<Rightarrow> pyerr + 'd loss_obj" where
  "get_loss config device reduction =
     (case MODEL config of
        None \<Rightarrow> Inl KeyError
      | Some model_config \<Rightarrow>
     (case SOLVER config of
        None \<Rightarrow> Inl KeyError
      | Some loss_config \<Rightarrow>
     (case loss_function loss_config of
        None \<Rightarrow> Inl KeyError
      | Some (LossSeq loss_types) \<Rightarrow>
          (case collect (map (\<lambda>loss_fun_type.
                                get_loss (set_loss_function config loss_fun_type) device reduction)
                             loss_types) of
             Inl e \<Rightarrow> Inl e
           | Inr loss_fun \<Rightarrow> Inr (LossList loss_fun))
      | Some (LossName name) \<Rightarrow>
          get_loss_named model_config loss_config name device reduction)))"
  by pat_completeness auto
termination
proof (relation "measure (\<lambda>(config, device, reduction).
         case SOLVER config of
           None \<Rightarrow> 0
         | Some s \<Rightarrow> (case loss_function s of None \<Rightarrow> 0 | Some t \<Rightarrow> size t))")
  show "wf (measure (\<lambda>(config, device :: 'd, reduction :: string option).
         case SOLVER config of
           None \<Rightarrow> 0
         | Some s \<Rightarrow> (case loss_function s of None \<Rightarrow> 0 | Some t \<Rightarrow> size t)))"
    by simp
next
  fix config :: config and device :: 'd and reduction :: "string option"
    and x2 x2a x2b x2c and loss_fun_type
  assume "SOLVER config = Some x2a" "loss_function x2a = Some x2b" "x2b = LossSeq x2c"
    "loss_fun_type \<in> set x2c"
  then show "((set_loss_function config loss_fun_type, device, reduction),
              (config, device, reduction))
             \<in> measure (\<lambda>(config, device, reduction).
                 case SOLVER config of
                   None \<Rightarrow> 0
                 | Some s \<Rightarrow> (case loss_function s of None \<Rightarrow> 0 | Some t \<Rightarrow> size t))"
    by (auto simp: set_loss_function_def less_Suc_eq_le size_list_estimation')
qed

declare get_loss.simps [simp del]

text \<open>The identifiers that some branch of the chain matches.\<close>

definition supported_identifiers :: "string list" where
  "supported_identifiers =
     [''contrastive_loss'', ''masked_contrastive_loss'', ''binary_cross_entropy'',
      ''masked_binary_cross_entropy'', ''cross_entropy'', ''weight_cross_entropy'',
      ''masked_cross_entropy'', ''focal_loss'', ''masked_focal_loss'', ''masked_dice_loss'',
      ''tversky_loss'', ''focal_tversky_loss'', ''combined_dice_ce'']"

text \<open>A loss functor: an object of one of the loss classes, neither \<open>None\<close> nor a list.\<close>

fun is_functor :: "'d loss_obj \<Rightarrow> bool" where
  "is_functor NoneValue = False"
| "is_functor (LossList fs) = False"
| "is_functor _ = True"

section \<open>per_class_loss\<close>

text \<open>
  \<^verbatim>\<open>
  def per_class_loss(criterion, logits, labels, unk_masks, n_classes):
      class_loss = []
      class_counts = []
      for class_ in range(n_classes):
          idx = labels == class_
          class_loss.append(
              criterion(logits[idx.repeat(1, 1, 1, n_classes)].reshape(-1, n_classes),
                        labels[idx].reshape(-1, 1),
                        unk_masks[idx].reshape(-1, 1)).detach().cpu().numpy())
          class_counts.append(unk_masks[idx].sum().cpu().numpy())
      class_loss = np.array(class_loss)
      class_counts = np.array(class_counts)
      return np.nan_to_num(class_loss, nan=0.0), class_counts
  \<close>
  The criterion is a parameter, called with three arguments. The sum of a boolean
  tensor is the number of its true elements. Over the reals no loss is NaN, and
  \<open>nan_to_num\<close> leaves the losses as they are. The loop variable \<open>class_\<close> is
  \<open>cls\<close> here.
\<close>

definition count_true :: "bool tensor \<Rightarrow> nat" where
  "count_true t = length (filter (\<lambda>b. b) (data t))"

definition per_class_step ::
  "(real tensor \<Rightarrow> int tensor \<Rightarrow> bool tensor \<Rightarrow> pyerr + 'r) \<Rightarrow> real tensor \<Rightarrow> int tensor
     \<Rightarrow> bool tensor \<Rightarrow> nat \<Rightarrow> nat \<Rightarrow> pyerr + ('r \<times> nat)"
where
  "per_class_step criterion logits labels unk_masks n_classes cls =
     (let idx = tmap (\<lambda>l. l = int cls) labels in
      bind_err (repeat_last 4 n_classes idx) (\<lambda>rep.
      bind_err (bool_index logits rep) (\<lambda>sel.
      bind_err (reshape_rows n_classes sel) (\<lambda>class_logits.
      bind_err (bool_index labels idx) (\<lambda>class_labels.
      bind_err (bool_index unk_masks idx) (\<lambda>class_masks.
      bind_err (criterion class_logits (reshape_col class_labels) (reshape_col class_masks))
        (\<lambda>loss.
      bind_err (bool_index unk_masks idx) (\<lambda>valid.
        Inr (loss, count_true valid)))))))))"

definition per_class_loss ::
  "(real tensor \<Rightarrow> int tensor \<Rightarrow> bool tensor \<Rightarrow> pyerr + 'r) \<Rightarrow> real tensor \<Rightarrow> int tensor
     \<Rightarrow> bool tensor \<Rightarrow> nat \<Rightarrow> pyerr + ('r list \<times> nat list)"
where
  "per_class_loss criterion logits labels unk_masks n_classes =
     bind_err (collect (map (per_class_step criterion logits labels unk_masks n_classes)
                          [0..<n_classes]))
       (\<lambda>results. Inr (map fst results, map snd results))"

section \<open>Properties of CombinedLoss\<close>

lemma CombinedLoss_loop_sum:
  "i + length fns \<le> length ws \<Longrightarrow> map (\<lambda>f. f inp tg) fns = map Inr vs \<Longrightarrow>
   CombinedLoss_loop fns ws i inp tg acc =
     Inr (acc + (\<Sum>k<length fns. (ws ! (i + k)) *\<^sub>R (vs ! k)))"
proof (induction fns arbitrary: i acc vs)
  case Nil
  then show ?case by simp
next
  case (Cons f fns)
  then obtain v vs' where vs: "vs = v # vs'" by (cases vs) auto
  from Cons.prems vs have fv: "f inp tg = Inr v"
    and rest: "map (\<lambda>f. f inp tg) fns = map Inr vs'" by auto
  from Cons.prems have le: "Suc i + length fns \<le> length ws" and lt: "i < length ws" by auto
  have "CombinedLoss_loop (f # fns) ws i inp tg acc =
        CombinedLoss_loop fns ws (Suc i) inp tg (acc + (ws ! i) *\<^sub>R v)"
    using fv lt by simp
  also have "\<dots> = Inr (acc + (ws ! i) *\<^sub>R v + (\<Sum>k<length fns. (ws ! (Suc i + k)) *\<^sub>R (vs' ! k)))"
    using Cons.IH [OF le rest] .
  also have "\<dots> = Inr (acc + (\<Sum>k<length (f # fns). (ws ! (i + k)) *\<^sub>R (vs ! k)))"
    by (simp add: vs sum.lessThan_Suc_shift add.assoc del: sum.lessThan_Suc)
  finally show ?case .
qed

lemma CombinedLoss_loop_take:
  "CombinedLoss_loop fns ws i inp tg acc =
   CombinedLoss_loop fns (take (i + length fns) ws) i inp tg acc"
proof (induction fns arbitrary: i acc)
  case Nil
  then show ?case by simp
next
  case (Cons f fns)
  have "CombinedLoss_loop fns ws (Suc i) inp tg a =
        CombinedLoss_loop fns (take (i + length (f # fns)) ws) (Suc i) inp tg a" for a
    using Cons.IH [of "Suc i" a] by simp
  then show ?case by (auto split: sum.splits)
qed

text \<open>
  C6. With as many weights as sub-losses, and every sub-loss returning a value on the
  shared \<open>(inputs, targets)\<close>, \<open>CombinedLoss.forward\<close> returns the weighted sum
  \<open>\<Sum>i. weights[i] \<sqdot> loss_fns[i](inputs, targets)\<close>; a single sub-loss \<open>f\<close> with weight
  \<open>w\<close> gives \<open>w\<close> times the value of \<open>f\<close> (and the error of \<open>f\<close> when \<open>f\<close> raises).
\<close>

theorem CombinedLoss_weighted_sum:
  assumes "length weights = length loss_fns"
    and "map (\<lambda>f. f inputs targets) loss_fns = map Inr vals"
  shows "CombinedLoss_forward loss_fns weights inputs targets =
           Inr (\<Sum>i<length loss_fns. (weights ! i) *\<^sub>R (vals ! i))
       \<and> CombinedLoss_forward [f] [w] inputs targets =
           (case f inputs targets of Inl e \<Rightarrow> Inl e | Inr l \<Rightarrow> Inr (w *\<^sub>R l))"
proof -
  have "0 + length loss_fns \<le> length weights" using assms(1) by simp
  from CombinedLoss_loop_sum [OF this assms(2), of 0]
  have "CombinedLoss_forward loss_fns weights inputs targets =
          Inr (\<Sum>i<length loss_fns. (weights ! i) *\<^sub>R (vals ! i))"
    by (simp add: CombinedLoss_forward_def)
  moreover have "CombinedLoss_forward [f] [w] inputs targets =
           (case f inputs targets of Inl e \<Rightarrow> Inl e | Inr l \<Rightarrow> Inr (w *\<^sub>R l))"
    by (simp add: CombinedLoss_forward_def split: sum.splits)
  ultimately show ?thesis by simp
qed

theorem CombinedLoss_weighted_sum_witness:
  "CombinedLoss_forward [\<lambda>x t. Inr (x + t), \<lambda>x t. Inr (x * t)] [1/2, 1/4] (2::real) (4::real)
     = Inr (5::real)
   \<and> CombinedLoss_forward [\<lambda>x t. Inr (x * t)] [3] (2::real) (4::real) = Inr (24::real)"
  using CombinedLoss_weighted_sum
    [of "[1/2, 1/4]" "[\<lambda>x t. Inr (x + t), \<lambda>x t. Inr (x * t)]" "2::real" "4::real" "[6, 8::real]"
        "\<lambda>x t. Inr (x * t)" 3]
  by (simp add: lessThan_Suc numeral_2_eq_2)

text \<open>
  C10. With no sub-loss, \<open>forward\<close> returns the number 0 whatever the inputs, targets
  and weights are; and in general it reads only the first \<open>len(loss_fns)\<close> weights.
\<close>

theorem CombinedLoss_empty_and_surplus_weights:
  "CombinedLoss_forward [] weights inputs targets = Inr 0
   \<and> CombinedLoss_forward loss_fns weights inputs targets =
       CombinedLoss_forward loss_fns (take (length loss_fns) weights) inputs targets"
  using CombinedLoss_loop_take [of loss_fns weights 0 inputs targets 0]
  by (simp add: CombinedLoss_forward_def)

section \<open>Evaluation on concrete inputs\<close>

lemma upt_numeral_eval:
  "[i..<numeral k] = (if i < numeral k then i # [Suc i..<numeral k] else [])"
  by (rule upt_rec)

lemma replicate_numeral_eval: "replicate (numeral k) x = x # replicate (pred_numeral k) x"
  by (simp add: numeral_eq_Suc)

lemmas eval_defs = bind_err_def last_dim_def reshape_rows_def reshape_col_def flatten_def
  numel_def bool_index_def repeat_last_def pad_shape_def rows_def log_softmax_def map_rows_def
  log_softmax_row_def gather_dim1_def gather_dim0_def unsqueeze_last_def tmap_def tbinop_def
  pow_f_def tmean_def tsum_def channels_to_last_def softmax_def softmax_row_def column_def
  one_hot_rows_def wf_tensor_def upt_numeral_eval replicate_numeral_eval Let_def


section \<open>Lemmas on rows and broadcasting\<close>

lemma concat_rows_take: "concat (rows n c xs) = take (n * c) xs"
proof (induction n)
  case 0 then show ?case by (simp add: rows_def)
next
  case (Suc n)
  have "concat (rows (Suc n) c xs) = concat (rows n c xs) @ take c (drop (n * c) xs)"
    by (simp add: rows_def)
  also have "\<dots> = take (n * c) xs @ take c (drop (n * c) xs)" using Suc by simp
  also have "\<dots> = take (n * c + c) xs" by (simp add: take_add)
  finally show ?case by (simp add: add.commute)
qed

lemma rows_length: "length (rows n c xs) = n" by (simp add: rows_def)

lemma rows_elem_length: "length xs = n * c \<Longrightarrow> r \<in> set (rows n c xs) \<Longrightarrow> length r = c"
proof -
  assume l: "length xs = n * c" and "r \<in> set (rows n c xs)"
  then obtain i where i: "i < n" and r: "r = take c (drop (i * c) xs)" by (auto simp: rows_def)
  have "i * c + c \<le> n * c" using i by (metis Suc_leI mult_Suc mult_le_mono1 add.commute)
  then show ?thesis using l r by simp
qed

lemma expand_to_same: "length xs = prod_list s \<Longrightarrow> expand_to s s xs = xs"
proof (induction s arbitrary: xs)
  case Nil then show ?case by simp
next
  case (Cons d ds)
  have "map (expand_to ds ds) (rows d (prod_list ds) xs) = rows d (prod_list ds) xs"
  proof (rule map_idI)
    fix r assume "r \<in> set (rows d (prod_list ds) xs)"
    then have "length r = prod_list ds" using Cons.prems rows_elem_length[of xs d "prod_list ds" r] by simp
    then show "expand_to ds ds r = r" by (rule Cons.IH)
  qed
  then show ?case using Cons.prems by (simp add: concat_rows_take)
qed

lemma broadcast_dims_same: "broadcast_dims s s = Some s"
  by (induction s) auto

lemma tbinop_same_shape:
  "shape a = shape b \<Longrightarrow> wf_tensor a \<Longrightarrow> wf_tensor b \<Longrightarrow>
   tbinop f a b = Inr (Tensor (shape a) (map2 f (data a) (data b)))"
  by (simp add: tbinop_def pad_shape_def broadcast_dims_same expand_to_same wf_tensor_def)

section \<open>MaskedContrastiveLoss: the mean is over all elements\<close>

text \<open>
  C7. With \<open>reduction = "mean"\<close>, a target and a mask of the shape of the logits,
  \<open>MaskedContrastiveLoss.forward\<close> returns the sum over all elements of
  \<open>mask \<sqdot> (- pos_weight \<sqdot> target \<sqdot> logits + (1 - target) \<sqdot> logits)\<close> divided by the
  total number of elements, whatever the number of true mask entries; without a mask
  the mask factor is absent and the divisor is the same. (On tensors with no element
  both sides are the quotient of 0 by 0.)
\<close>

theorem MaskedContrastiveLoss_mean_all_elements:
  assumes "wf_tensor logits" and "wf_tensor target" and "wf_tensor vmask"
    and "shape target = shape logits" and "shape vmask = shape logits"
  shows "MaskedContrastiveLoss_forward pw (Some ''mean'') logits (GT_Seq2 target vmask) =
           Inr (Tensor [] [(\<Sum>i<numel logits.
                  (if data vmask ! i then 1 else 0) *
                  (- pw * data target ! i * data logits ! i
                   + (1 - data target ! i) * data logits ! i)) / real (numel logits)])
       \<and> MaskedContrastiveLoss_forward pw (Some ''mean'') logits (GT_Tensor target) =
           Inr (Tensor [] [(\<Sum>i<numel logits.
                  (- pw * data target ! i * data logits ! i
                   + (1 - data target ! i) * data logits ! i)) / real (numel logits)])"
proof -
  define n where "n = numel logits"
  define ps where "ps = map2 (*) (map (\<lambda>t. - pw * t) (data target)) (data logits)"
  define ns where "ns = map2 (*) (map (\<lambda>t. 1 - t) (data target)) (data logits)"
  define ls where "ls = map2 (+) ps ns"
  define ms where "ms = map (\<lambda>b. if b then 1 else (0::real)) (data vmask)"
  define mls where "mls = map2 (*) ms ls"
  have ll: "length (data logits) = n" and lt: "length (data target) = n"
    and lm: "length (data vmask) = n"
    using assms by (simp_all add: wf_tensor_def numel_def n_def)
  have lps: "length ps = n" and lns: "length ns = n" and lms: "length ms = n"
    using ll lt lm by (simp_all add: ps_def ns_def ms_def)
  have lls: "length ls = n" using lps lns by (simp add: ls_def)
  have lmls: "length mls = n" using lms lls by (simp add: mls_def)
  have pos: "tbinop (*) (tmap (\<lambda>t. - pw * t) target) logits = Inr (Tensor (shape logits) ps)"
    using assms tbinop_same_shape [of "tmap (\<lambda>t. - pw * t) target" logits "(*)"]
    by (simp add: tmap_def wf_tensor_def ps_def)
  have neg: "tbinop (*) (tmap (\<lambda>t. 1 - t) target) logits = Inr (Tensor (shape logits) ns)"
    using assms tbinop_same_shape [of "tmap (\<lambda>t. 1 - t) target" logits "(*)"]
    by (simp add: tmap_def wf_tensor_def ns_def)
  have loss: "tbinop (+) (Tensor (shape logits) ps) (Tensor (shape logits) ns)
                = Inr (Tensor (shape logits) ls)"
    using lps lns ll tbinop_same_shape [of "Tensor (shape logits) ps" "Tensor (shape logits) ns" "(+)"]
    by (simp add: wf_tensor_def numel_def ls_def n_def)
  have ml: "tbinop (*) (tmap (\<lambda>b. if b then 1 else 0) vmask) (Tensor (shape logits) ls)
                = Inr (Tensor (shape logits) mls)"
    using lms lls ll assms(5)
      tbinop_same_shape [of "tmap (\<lambda>b. if b then 1 else 0) vmask" "Tensor (shape logits) ls" "(*)"]
    by (simp add: wf_tensor_def numel_def tmap_def mls_def ms_def n_def)
  have ls_nth: "ls ! i = - pw * data target ! i * data logits ! i
                   + (1 - data target ! i) * data logits ! i" if "i < n" for i
    using that ll lt by (simp add: ls_def ps_def ns_def)
  have mls_nth: "mls ! i = (if data vmask ! i then 1 else 0) * ls ! i" if "i < n" for i
    using that lm lls by (simp add: mls_def ms_def)
  have sl: "sum_list ls = (\<Sum>i<n. - pw * data target ! i * data logits ! i
                   + (1 - data target ! i) * data logits ! i)"
    using sum_list_sum_nth [of ls] ls_nth by (simp add: lls atLeast0LessThan)
  have sm: "sum_list mls = (\<Sum>i<n. (if data vmask ! i then 1 else 0) *
                  (- pw * data target ! i * data logits ! i
                   + (1 - data target ! i) * data logits ! i))"
    using sum_list_sum_nth [of mls] mls_nth ls_nth by (simp add: lmls atLeast0LessThan)
  have A: "MaskedContrastiveLoss_forward pw (Some ''mean'') logits (GT_Seq2 target vmask)
        = Inr (tmean (Tensor (shape logits) mls))"
    by (simp only: MaskedContrastiveLoss_forward_def bind_err_def
          MaskedContrastiveLoss_ground_truth.simps pos neg loss ml
          sum.case prod.case option.case simp_thms if_True)
  have B: "MaskedContrastiveLoss_forward pw (Some ''mean'') logits (GT_Tensor target)
        = Inr (tmean (Tensor (shape logits) ls))"
    by (simp only: MaskedContrastiveLoss_forward_def bind_err_def
          MaskedContrastiveLoss_ground_truth.simps pos neg loss
          sum.case prod.case option.case simp_thms if_True)
  show ?thesis
    unfolding A B by (simp add: tmean_def sm sl lmls lls n_def)
qed

theorem MaskedContrastiveLoss_mean_all_elements_witness:
  "MaskedContrastiveLoss_forward 1 (Some ''mean'') (Tensor [2] [2, 4])
     (GT_Seq2 (Tensor [2] [1, 0]) (Tensor [2] [True, False])) = Inr (Tensor [] [- 1])
   \<and> MaskedContrastiveLoss_forward 1 (Some ''mean'') (Tensor [2] [2, 4])
     (GT_Tensor (Tensor [2] [1, 0])) = Inr (Tensor [] [1])"
  using MaskedContrastiveLoss_mean_all_elements
    [of "Tensor [2] [2, 4]" "Tensor [2] [1, 0]" "Tensor [2] [True, False]" 1]
  by (simp add: wf_tensor_def numel_def lessThan_Suc numeral_2_eq_2)

section \<open>MaskedFocalLoss under an all-true mask\<close>

lemma rows_one: "length xs = n \<Longrightarrow> rows n (Suc 0) xs = map (\<lambda>x. [x]) xs"
proof -
  assume l: "length xs = n"
  have "take 1 (drop i xs) = [xs ! i]" if "i < n" for i
    using that l by (metis One_nat_def Cons_nth_drop_Suc take0 take_Suc_Cons)
  then show ?thesis using l by (auto simp: rows_def list_eq_iff_nth_eq)
qed

lemma select_all_true:
  "length ys = n \<Longrightarrow> map fst (filter snd (zip ys (replicate n True))) = ys"
proof -
  assume l: "length ys = n"
  have "filter snd (zip ys (replicate n True)) = zip ys (replicate n True)"
    by (rule filter_True) (auto dest: set_zip_rightD)
  then show ?thesis using l by simp
qed

lemma concat_singletons: "concat (map (\<lambda>x. [x]) xs) = xs"
  by (induction xs) auto

lemma concat_replicate_single: "concat (replicate c [x]) = replicate c x"
  by (induction c) auto

lemma concat_replicate_replicate: "concat (replicate n (replicate c x)) = replicate (n * c) x"
  by (induction n) (auto simp: replicate_add)

lemma bool_index_all_true:
  assumes "length xs = prod_list s"
  shows "bool_index (Tensor s xs) (Tensor s (replicate (prod_list s) True))
           = Inr (Tensor [prod_list s] xs)"
proof -
  have "map fst (filter snd (zip (rows (prod_list s) (Suc 0) xs) (replicate (prod_list s) True)))
          = map (\<lambda>x. [x]) xs"
    using assms by (simp add: rows_one select_all_true)
  moreover from this
  have "length (filter snd (zip (rows (prod_list s) (Suc 0) xs) (replicate (prod_list s) True)))
          = prod_list s"
    using assms by (metis length_map)
  ultimately show ?thesis
    using assms by (simp add: bool_index_def numel_def Let_def concat_singletons)
qed

lemma repeat_last_col_all_true:
  "repeat_last 2 c (Tensor [n, Suc 0] (replicate n True)) = Inr (Tensor [n, c] (replicate (n * c) True))"
proof -
  have "pad_shape 2 [n, Suc 0] = [n, Suc 0]" by (simp add: pad_shape_def)
  then show ?thesis
    by (simp add: repeat_last_def Let_def rows_one concat_replicate_replicate)
qed

text \<open>
  C1 (as amended). On 2-dimensional logits \<open>(N, C)\<close> with \<open>C > 0\<close>, a target of
  \<open>N\<close> class indices and an all-true mask of \<open>N\<close> entries,
  \<open>MaskedFocalLoss.forward(logits, (target, mask))\<close> and
  \<open>FocalLoss.forward(logits, target)\<close> with the same gamma, alpha and reduction give
  the same result, value or error.
\<close>

theorem MaskedFocalLoss_all_true_mask_2d:
  assumes sh: "shape logits = [n, c]" and c: "0 < c" and wl: "wf_tensor logits"
    and vm: "data vmask = replicate n True" and nm: "numel vmask = n"
    and nt: "numel target = n" and wt: "wf_tensor target"
  shows "MaskedFocalLoss_forward g al reduction logits (GT_Seq2 target vmask)
           = FocalLoss_forward g al reduction logits target"
proof -
  have ll: "length (data logits) = n * c" using sh wl by (simp add: wf_tensor_def)
  have lt: "length (data target) = n" using nt wt by (simp add: wf_tensor_def numel_def)
  have m: "reshape_col vmask = Tensor [n, Suc 0] (replicate n True)"
    using vm nm by (simp add: reshape_col_def)
  have t: "reshape_col target = Tensor [n, Suc 0] (data target)"
    using nt by (simp add: reshape_col_def)
  have b1: "bool_index (Tensor [n, Suc 0] (data target)) (Tensor [n, Suc 0] (replicate n True))
              = Inr (Tensor [n] (data target))"
    using bool_index_all_true [of "data target" "[n, Suc 0]"] lt by simp
  have b2: "bool_index logits (Tensor [n, c] (replicate (n * c) True))
              = Inr (Tensor [n * c] (data logits))"
    using bool_index_all_true [of "data logits" "[n, c]"] ll sh by (cases logits) simp
  have r: "reshape_rows c (Tensor [n * c] (data logits)) = Inr logits"
    using c sh by (cases logits) (simp add: reshape_rows_def numel_def)
  have ld: "last_dim logits = Inr c" using sh by (simp add: last_dim_def)
  have rr: "reshape_rows c logits = Inr logits"
    using sh c by (cases logits) (simp add: reshape_rows_def numel_def)
  have cl: "channels_to_last logits = Inr logits"
    using sh by (simp add: channels_to_last_def)
  have u: "unsqueeze_last (Tensor [n] (data target)) = Tensor [n, Suc 0] (data target)"
    by (simp add: unsqueeze_last_def)
  have f1: "flatten (Tensor [n, Suc 0] (data target)) = Tensor [n] (data target)"
    and f2: "flatten (Tensor [n] (data target)) = Tensor [n] (data target)"
    by (simp_all add: flatten_def numel_def)
  show ?thesis
    unfolding MaskedFocalLoss_forward_def FocalLoss_forward_def
    apply (simp add: ld rr cl m t b1 b2 r repeat_last_col_all_true bind_err_def Let_def)
    unfolding t u f1 f2
    apply (rule refl)
    done
qed

theorem MaskedFocalLoss_all_true_mask_2d_witness:
  "MaskedFocalLoss_forward 0 (Some [1/4, 3/4]) (Some ''sum'') (Tensor [2, 2] [0, 0, 0, 0])
     (GT_Seq2 (Tensor [2] [0, 1]) (Tensor [2] [True, True]) :: (int tensor, bool tensor, unit) ground_truth)
   = FocalLoss_forward 0 (Some [1/4, 3/4]) (Some ''sum'') (Tensor [2, 2] [0, 0, 0, 0]) (Tensor [2] [0, 1])
   \<and> FocalLoss_forward 0 (Some [1/4, 3/4]) (Some ''sum'') (Tensor [2, 2] [0, 0, 0, 0]) (Tensor [2] [0, 1])
       = Inr (Tensor [] [ln 2])"
  using MaskedFocalLoss_all_true_mask_2d
    [of "Tensor [2, 2] [0, 0, 0, 0]" 2 2 "Tensor [2] [True, True]" "Tensor [2] [0, 1]"
        0 "Some [1/4, 3/4]" "Some ''sum''"]
  by (simp add: FocalLoss_forward_def eval_defs)

text \<open>
  On logits with more than two axes the two differ: \<open>MaskedFocalLoss\<close> reads the
  classes on the trailing axis, \<open>FocalLoss\<close> on axis 1 (\<open>N,C,H,W\<close>). For logits of
  shape \<open>(1, 2, 2)\<close> the masked loss scores the rows \<open>[0, 0]\<close> and \<open>[1, 1]\<close>, the
  unmasked one the rows \<open>[0, 1]\<close> and \<open>[0, 1]\<close>.
\<close>

theorem MaskedFocalLoss_channels_last_counterexample:
  "MaskedFocalLoss_forward 0 None None (Tensor [1, 2, 2] [0, 0, 1, 1])
     (GT_Seq2 (Tensor [1, 2] [0, 0]) (Tensor [1, 2] [True, True]) :: (int tensor, bool tensor, unit) ground_truth)
   \<noteq> FocalLoss_forward 0 None None (Tensor [1, 2, 2] [0, 0, 1, 1]) (Tensor [1, 2] [0, 0])"
proof -
  have "ln (1 + exp 1) \<noteq> ln (2::real)"
  proof
    assume "ln (1 + exp 1) = ln (2::real)"
    moreover have "0 < 1 + exp (1::real)" by (simp add: add_pos_pos)
    ultimately have "1 + exp (1::real) = 2" by (simp add: ln_inj_iff)
    then show False by simp
  qed
  then show ?thesis
    by (simp add: MaskedFocalLoss_forward_def FocalLoss_forward_def eval_defs)
qed

section \<open>Reductions\<close>




text \<open>
  C4. With a reduction that is neither \<open>None\<close>, \<open>"mean"\<close> nor \<open>"sum"\<close>,
  \<open>MaskedFocalLoss\<close>, \<open>FocalLoss\<close>, \<open>MaskedDiceLoss\<close> and \<open>FocalTverskyLoss\<close> never
  return a result: they raise ValueError where the loss computation itself succeeds,
  and the error of the computation otherwise. \<open>MaskedContrastiveLoss\<close> has no such
  branch: under every reduction other than \<open>"mean"\<close>, \<open>"sum"\<close> and unsupported strings
  included, it returns what it returns under \<open>None\<close>, the unreduced tensor; with
  \<open>"bogus"\<close> on the logit 2 and the target 1 it returns \<open>[-2]\<close>.
\<close>

theorem unsupported_reduction_divergence:
  "(reduction \<noteq> None \<and> reduction \<noteq> Some ''mean'' \<and> reduction \<noteq> Some ''sum'' \<longrightarrow>
       MaskedFocalLoss_forward g al reduction logits gti
           = invalid_after (MaskedFocalLoss_forward g al None logits gti)
       \<and> FocalLoss_forward g al reduction logits target
           = invalid_after (FocalLoss_forward g al None logits target)
       \<and> MaskedDiceLoss_forward reduction ls logits gti
           = invalid_after (MaskedDiceLoss_forward None ls logits gti)
       \<and> FocalTverskyLoss_forward sm a b g reduction logits target
           = invalid_after (FocalTverskyLoss_forward sm a b g None logits target))
   \<and> (reduction \<noteq> Some ''mean'' \<longrightarrow>
       MaskedContrastiveLoss_forward pw reduction logits gt
           = MaskedContrastiveLoss_forward pw None logits gt)
   \<and> MaskedContrastiveLoss_forward 1 (Some ''bogus'') (Tensor [1] [2])
         (GT_Tensor (Tensor [1] [1]) :: (real tensor, bool tensor, unit) ground_truth)
       = Inr (Tensor [1] [- 2])"
proof (intro conjI impI)
  assume "reduction \<noteq> None \<and> reduction \<noteq> Some ''mean'' \<and> reduction \<noteq> Some ''sum''"
  then obtain s where r: "reduction = Some s" and s: "s \<noteq> ''mean''" "s \<noteq> ''sum''"
    by (cases reduction) auto
  show "MaskedFocalLoss_forward g al reduction logits gti
           = invalid_after (MaskedFocalLoss_forward g al None logits gti)"
    unfolding r using s
    by (simp add: MaskedFocalLoss_forward_def invalid_after_def bind_err_def Let_def
             split: sum.splits prod.splits option.splits)
  show "FocalLoss_forward g al reduction logits target
           = invalid_after (FocalLoss_forward g al None logits target)"
    unfolding r using s
    by (simp add: FocalLoss_forward_def invalid_after_def bind_err_def Let_def
             split: sum.splits prod.splits option.splits)
  show "MaskedDiceLoss_forward reduction ls logits gti
           = invalid_after (MaskedDiceLoss_forward None ls logits gti)"
    unfolding r using s
    by (simp add: MaskedDiceLoss_forward_def invalid_after_def bind_err_def Let_def
             split: sum.splits prod.splits option.splits)
  show "FocalTverskyLoss_forward sm a b g reduction logits target
           = invalid_after (FocalTverskyLoss_forward sm a b g None logits target)"
    unfolding r using s
    by (auto simp add: FocalTverskyLoss_forward_def invalid_after_def bind_err_def Let_def
             split: sum.splits prod.splits option.splits)
next
  assume "reduction \<noteq> Some ''mean''"
  then show "MaskedContrastiveLoss_forward pw reduction logits gt
           = MaskedContrastiveLoss_forward pw None logits gt"
    by (simp add: MaskedContrastiveLoss_forward_def)
next
  show "MaskedContrastiveLoss_forward 1 (Some ''bogus'') (Tensor [1] [2])
         (GT_Tensor (Tensor [1] [1]) :: (real tensor, bool tensor, unit) ground_truth)
       = Inr (Tensor [1] [- 2])"
    by (simp add: MaskedContrastiveLoss_forward_def eval_defs)
qed

theorem unsupported_reduction_divergence_witness:
  "FocalLoss_forward 0 None (Some ''bogus'') (Tensor [2, 2] [0, 0, 0, 0]) (Tensor [2] [0, 1])
     = Inl ValueError
   \<and> FocalLoss_forward 0 None None (Tensor [2, 2] [0, 0, 0, 0]) (Tensor [2] [0, 1])
     = Inr (Tensor [2] [ln 2, ln 2])
   \<and> MaskedContrastiveLoss_forward 1 (Some ''bogus'') (Tensor [2] [2, 4])
        (GT_Tensor (Tensor [2] [1, 0]) :: (real tensor, bool tensor, unit) ground_truth)
     = Inr (Tensor [2] [- 2, 4])
   \<and> MaskedContrastiveLoss_forward 1 (Some ''sum'') (Tensor [2] [2, 4])
        (GT_Tensor (Tensor [2] [1, 0]) :: (real tensor, bool tensor, unit) ground_truth)
     = Inr (Tensor [2] [- 2, 4])"
  using unsupported_reduction_divergence
    [where reduction = "Some ''bogus''" and logits = "Tensor [2, 2] [0, 0, 0, 0]"
       and target = "Tensor [2] [0, 1]" and g = 0 and al = None]
    unsupported_reduction_divergence
    [where reduction = "Some ''sum''" and logits = "Tensor [2] [2, 4]" and pw = 1
       and gt = "GT_Tensor (Tensor [2] [1, 0]) :: (real tensor, bool tensor, unit) ground_truth"]
  by (simp add: FocalLoss_forward_def MaskedContrastiveLoss_forward_def invalid_after_def eval_defs)

section \<open>Ground truth of three or more elements\<close>

text \<open>
  C2. \<open>MaskedCrossEntropyLoss\<close>, \<open>MaskedFocalLoss\<close> and \<open>MaskedDiceLoss\<close> raise
  ValueError on a ground truth of three or more elements, whereas
  \<open>MaskedContrastiveLoss\<close> and \<open>MaskedBinaryCrossEntropy\<close> read its first two
  elements as (target, mask) and return a loss.
\<close>

theorem ground_truth_arity_three:
  "len_gt (GT_SeqN t m x xs) = Some (3 + length xs)
   \<and> MaskedCrossEntropyLoss_forward mean logits (GT_SeqN t m x xs) = Inl ValueError
   \<and> MaskedFocalLoss_forward g al reduction logits (GT_SeqN t m x xs) = Inl ValueError
   \<and> MaskedDiceLoss_forward reduction ls logits (GT_SeqN t m x xs) = Inl ValueError
   \<and> MaskedContrastiveLoss_forward 1 None (Tensor [1] [2])
         (GT_SeqN (Tensor [1] [1]) (Tensor [1] [True]) () []) = Inr (Tensor [1] [- 2])
   \<and> MaskedBinaryCrossEntropy_forward (\<lambda>l t. Inr (l, t)) (Tensor [1] [2])
         (GT_SeqN (Tensor [1] [1]) (Tensor [1] [True]) () [])
         = Inr (Tensor [1] [2], Tensor [1] [1])"
  by (simp add: MaskedCrossEntropyLoss_forward_def MaskedFocalLoss_forward_def
        MaskedDiceLoss_forward_def MaskedContrastiveLoss_forward_def eval_defs)

section \<open>The factory on single identifiers and on sequences\<close>

lemma get_loss_LossName:
  "MODEL config = Some mc \<Longrightarrow> SOLVER config = Some sc \<Longrightarrow>
   loss_function sc = Some (LossName name) \<Longrightarrow>
   get_loss config device reduction = get_loss_named mc sc name device reduction"
  by (simp add: get_loss.simps)

lemma get_loss_LossSeq:
  "MODEL config = Some mc \<Longrightarrow> SOLVER config = Some sc \<Longrightarrow>
   loss_function sc = Some (LossSeq ts) \<Longrightarrow>
   get_loss config device reduction =
     (case collect (map (\<lambda>t. get_loss (set_loss_function config t) device reduction) ts) of
        Inl e \<Rightarrow> Inl e | Inr fs \<Rightarrow> Inr (LossList fs))"
  by (simp add: get_loss.simps)

lemma collect_all_Inr: "collect (map Inr vs) = Inr vs"
  by (induction vs) auto

lemma get_loss_named_functor:
  "name \<in> set supported_identifiers \<Longrightarrow>
   get_loss_named mc sc name device reduction = Inr obj \<Longrightarrow> is_functor obj"
  by (auto simp: supported_identifiers_def get_loss_named_def bind_err_def Let_def
           split: option.splits sum.splits if_splits)

text \<open>
  C3. On a configuration whose \<open>loss_function\<close> is a single identifier that no branch
  matches, \<open>get_loss\<close> raises nothing: it returns \<open>None\<close>.
\<close>

theorem get_loss_unknown_identifier_returns_None:
  assumes "MODEL config = Some mc" and "SOLVER config = Some sc"
    and "loss_function sc = Some (LossName name)"
    and "name \<notin> set supported_identifiers"
  shows "get_loss config device reduction = Inr NoneValue"
  using assms(4) unfolding get_loss_LossName [OF assms(1-3)]
  by (simp add: get_loss_named_def supported_identifiers_def)

theorem get_loss_unknown_identifier_returns_None_witness:
  "get_loss
     \<lparr>MODEL = Some \<lparr>num_classes = Some 2\<rparr>,
      SOLVER = Some \<lparr>loss_function = Some (LossName ''l1_loss''), pos_weight = None,
                class_weights = None, label_smoothing = None, gamma = None, alpha = None,
                smooth = None, beta = None, loss_weights = None\<rparr>\<rparr>
     ''cpu'' (Some ''mean'') = Inr NoneValue"
  using get_loss_unknown_identifier_returns_None
    [of "\<lparr>MODEL = Some \<lparr>num_classes = Some 2\<rparr>,
      SOLVER = Some \<lparr>loss_function = Some (LossName ''l1_loss''), pos_weight = None,
                class_weights = None, label_smoothing = None, gamma = None, alpha = None,
                smooth = None, beta = None, loss_weights = None\<rparr>\<rparr>"
        "\<lparr>num_classes = Some 2\<rparr>"
        "\<lparr>loss_function = Some (LossName ''l1_loss''), pos_weight = None,
                class_weights = None, label_smoothing = None, gamma = None, alpha = None,
                smooth = None, beta = None, loss_weights = None\<rparr>"
        "''l1_loss''" "''cpu''" "Some ''mean''"]
  by (simp add: supported_identifiers_def)

lemma set_loss_function_fields:
  "SOLVER config = Some sc \<Longrightarrow>
   MODEL (set_loss_function config t) = MODEL config
   \<and> SOLVER (set_loss_function config t) = Some (sc\<lparr>loss_function := Some t\<rparr>)"
  by (simp add: set_loss_function_def)

lemma collect_first_error:
  "i < length rs \<Longrightarrow> (\<forall>j<i. \<exists>v. rs ! j = Inr v) \<Longrightarrow> rs ! i = Inl e \<Longrightarrow>
   collect rs = Inl e"
proof (induction rs arbitrary: i)
  case Nil
  then show ?case by simp
next
  case (Cons r rs)
  show ?case
  proof (cases i)
    case 0
    then show ?thesis using Cons.prems by simp
  next
    case (Suc k)
    from Cons.prems Suc have "\<exists>v. (r # rs) ! 0 = Inr v" by blast
    then obtain v where r: "r = Inr v" by auto
    have "\<forall>j<k. \<exists>v. rs ! j = Inr v"
    proof (intro allI impI)
      fix j assume "j < k"
      then have "Suc j < i" using Suc by simp
      then have "\<exists>v. (r # rs) ! Suc j = Inr v" using Cons.prems(2) by blast
      then show "\<exists>v. rs ! j = Inr v" by simp
    qed
    moreover have "k < length rs" and "rs ! k = Inl e" using Cons.prems Suc by auto
    ultimately have "collect rs = Inl e" using Cons.IH by blast
    then show ?thesis by (simp add: r)
  qed
qed

text \<open>
  C8 (as amended). On a configuration whose \<open>loss_function\<close> is a sequence, when the
  construction of every element succeeds, \<open>get_loss\<close> returns the list of the
  constructed objects, one per element and in the order of the elements, and the
  object of a supported identifier is a loss functor; when the construction of some
  element raises, \<open>get_loss\<close> raises the error of the first element whose construction
  raises; \<open>["focal_loss", "masked_dice_loss"]\<close> always gives a \<open>FocalLoss\<close> followed
  by a \<open>MaskedDiceLoss\<close>.
\<close>

theorem get_loss_sequence:
  assumes m: "MODEL config = Some mc" and s: "SOLVER config = Some sc"
    and l: "loss_function sc = Some (LossSeq ts)"
  shows "(map (\<lambda>t. get_loss (set_loss_function config t) device reduction) ts = map Inr objs
            \<longrightarrow> get_loss config device reduction = Inr (LossList objs)
                \<and> length objs = length ts
                \<and> (\<forall>i<length ts. \<forall>name. ts ! i = LossName name
                       \<and> name \<in> set supported_identifiers \<longrightarrow> is_functor (objs ! i)))
       \<and> (i < length ts
            \<and> (\<forall>j<i. \<exists>obj. get_loss (set_loss_function config (ts ! j)) device reduction
                              = Inr obj)
            \<and> get_loss (set_loss_function config (ts ! i)) device reduction = Inl e
            \<longrightarrow> get_loss config device reduction = Inl e)
       \<and> (ts = [LossName ''focal_loss'', LossName ''masked_dice_loss'']
            \<longrightarrow> get_loss config device reduction =
                  Inr (LossList
                    [FocalLoss_obj (get_params_values (gamma sc) 1) (alpha_tensor (alpha sc))
                       reduction,
                     MaskedDiceLoss_obj reduction device
                       (get_params_values (label_smoothing sc) 0)]))"
proof (intro conjI impI)
  assume a: "map (\<lambda>t. get_loss (set_loss_function config t) device reduction) ts = map Inr objs"
  show "get_loss config device reduction = Inr (LossList objs)"
    unfolding get_loss_LossSeq [OF m s l] a by (simp add: collect_all_Inr)
  show len: "length objs = length ts"
    using a by (metis length_map)
  show "\<forall>i<length ts. \<forall>name. ts ! i = LossName name
                       \<and> name \<in> set supported_identifiers \<longrightarrow> is_functor (objs ! i)"
  proof (intro allI impI)
    fix i name
    assume i: "i < length ts" and n: "ts ! i = LossName name \<and> name \<in> set supported_identifiers"
    have "map (\<lambda>t. get_loss (set_loss_function config t) device reduction) ts ! i
            = map Inr objs ! i" using a by simp
    then have "get_loss (set_loss_function config (LossName name)) device reduction = Inr (objs ! i)"
      using i len n by simp
    moreover have "get_loss (set_loss_function config (LossName name)) device reduction
          = get_loss_named mc (sc\<lparr>loss_function := Some (LossName name)\<rparr>) name device reduction"
      by (rule get_loss_LossName) (simp_all add: set_loss_function_fields [OF s] m)
    ultimately show "is_functor (objs ! i)"
      using n get_loss_named_functor by metis
  qed
next
  assume f: "i < length ts
            \<and> (\<forall>j<i. \<exists>obj. get_loss (set_loss_function config (ts ! j)) device reduction
                              = Inr obj)
            \<and> get_loss (set_loss_function config (ts ! i)) device reduction = Inl e"
  let ?rs = "map (\<lambda>t. get_loss (set_loss_function config t) device reduction) ts"
  have "i < length ?rs" using f by simp
  moreover have "\<forall>j<i. \<exists>v. ?rs ! j = Inr v" using f by simp
  moreover have "?rs ! i = Inl e" using f by simp
  ultimately have "collect ?rs = Inl e" by (rule collect_first_error)
  then show "get_loss config device reduction = Inl e"
    unfolding get_loss_LossSeq [OF m s l] by simp
next
  assume t: "ts = [LossName ''focal_loss'', LossName ''masked_dice_loss'']"
  have f: "get_loss (set_loss_function config (LossName name)) device reduction
          = get_loss_named mc (sc\<lparr>loss_function := Some (LossName name)\<rparr>) name device reduction"
    for name
    by (rule get_loss_LossName) (simp_all add: set_loss_function_fields [OF s] m)
  show "get_loss config device reduction =
                  Inr (LossList
                    [FocalLoss_obj (get_params_values (gamma sc) 1) (alpha_tensor (alpha sc))
                       reduction,
                     MaskedDiceLoss_obj reduction device
                       (get_params_values (label_smoothing sc) 0)])"
    unfolding get_loss_LossSeq [OF m s l] t
    by (simp add: f get_loss_named_def)
qed

theorem get_loss_sequence_witness:
  "get_loss
     \<lparr>MODEL = Some \<lparr>num_classes = Some 2\<rparr>,
      SOLVER = Some \<lparr>loss_function =
                  Some (LossSeq [LossName ''focal_loss'', LossName ''masked_dice_loss'']),
                pos_weight = None, class_weights = None, label_smoothing = None,
                gamma = Some 2, alpha = Some (AlphaNum (1/4)),
                smooth = None, beta = None, loss_weights = None\<rparr>\<rparr>
     ''cpu'' (Some ''mean'')
   = Inr (LossList [FocalLoss_obj 2 (Some [1/4, 3/4]) (Some ''mean''),
                    MaskedDiceLoss_obj (Some ''mean'') ''cpu'' 0])
   \<and> get_loss
     \<lparr>MODEL = Some \<lparr>num_classes = None\<rparr>,
      SOLVER = Some \<lparr>loss_function =
                  Some (LossSeq [LossName ''focal_loss'', LossName ''cross_entropy'',
                                 LossName ''masked_binary_cross_entropy'']),
                pos_weight = None, class_weights = Some None, label_smoothing = None,
                gamma = None, alpha = None,
                smooth = None, beta = None, loss_weights = None\<rparr>\<rparr>
     ''cpu'' (Some ''mean'')
   = Inl TypeError"
  using get_loss_sequence
    [of "\<lparr>MODEL = Some \<lparr>num_classes = Some 2\<rparr>,
      SOLVER = Some \<lparr>loss_function =
                  Some (LossSeq [LossName ''focal_loss'', LossName ''masked_dice_loss'']),
                pos_weight = None, class_weights = None, label_smoothing = None,
                gamma = Some 2, alpha = Some (AlphaNum (1/4)),
                smooth = None, beta = None, loss_weights = None\<rparr>\<rparr>"
        "\<lparr>num_classes = Some 2\<rparr>"
        "\<lparr>loss_function =
                  Some (LossSeq [LossName ''focal_loss'', LossName ''masked_dice_loss'']),
                pos_weight = None, class_weights = None, label_smoothing = None,
                gamma = Some 2, alpha = Some (AlphaNum (1/4)),
                smooth = None, beta = None, loss_weights = None\<rparr>"
        "[LossName ''focal_loss'', LossName ''masked_dice_loss'']" "''cpu''" "Some ''mean''"
        "[FocalLoss_obj 2 (Some [1/4, 3/4]) (Some ''mean''),
          MaskedDiceLoss_obj (Some ''mean'') ''cpu'' 0]"]
    get_loss_sequence
    [of "\<lparr>MODEL = Some \<lparr>num_classes = None\<rparr>,
      SOLVER = Some \<lparr>loss_function =
                  Some (LossSeq [LossName ''focal_loss'', LossName ''cross_entropy'',
                                 LossName ''masked_binary_cross_entropy'']),
                pos_weight = None, class_weights = Some None, label_smoothing = None,
                gamma = None, alpha = None,
                smooth = None, beta = None, loss_weights = None\<rparr>\<rparr>"
        "\<lparr>num_classes = None\<rparr>"
        "\<lparr>loss_function =
                  Some (LossSeq [LossName ''focal_loss'', LossName ''cross_entropy'',
                                 LossName ''masked_binary_cross_entropy'']),
                pos_weight = None, class_weights = Some None, label_smoothing = None,
                gamma = None, alpha = None,
                smooth = None, beta = None, loss_weights = None\<rparr>"
        "[LossName ''focal_loss'', LossName ''cross_entropy'',
          LossName ''masked_binary_cross_entropy'']" "''cpu''" "Some ''mean''" _ "Suc 0" TypeError]
  by (simp add: get_params_values_def get_loss.simps [of _ "''cpu''"] set_loss_function_def
        get_loss_named_def)

text \<open>
  The construction of a supported identifier can raise: \<open>masked_binary_cross_entropy\<close>
  reads \<open>config['SOLVER']['pos_weight']\<close> by subscript, a KeyError when the key is absent.
\<close>

theorem get_loss_sequence_missing_pos_weight_counterexample:
  "get_loss
     \<lparr>MODEL = Some \<lparr>num_classes = Some 2\<rparr>,
      SOLVER = Some \<lparr>loss_function = Some (LossSeq [LossName ''masked_binary_cross_entropy'']),
                pos_weight = None, class_weights = None, label_smoothing = None,
                gamma = None, alpha = None, smooth = None, beta = None,
                loss_weights = None\<rparr>\<rparr>
     ''cpu'' (Some ''mean'') = Inl KeyError"
  by (simp add: get_loss.simps [of _ "''cpu''"] set_loss_function_def get_loss_named_def)

section \<open>per_class_loss counts every valid element once\<close>

lemma collect_Inr_nth:
  "collect rs = Inr vs \<Longrightarrow> length vs = length rs \<and> (\<forall>i<length rs. rs ! i = Inr (vs ! i))"
proof (induction rs arbitrary: vs)
  case Nil
  then show ?case by simp
next
  case (Cons r rs)
  then obtain v vs' where r: "r = Inr v" and c: "collect rs = Inr vs'" and vs: "vs = v # vs'"
    by (auto split: sum.splits)
  from Cons.IH [OF c] show ?case
    by (auto simp: r vs nth_Cons split: nat.splits)
qed

lemma select_by_label_count:
  "length ds = length ls \<Longrightarrow>
   length (filter (\<lambda>b. b)
     (concat (map fst (filter snd (zip (map (\<lambda>x. [x]) ds) (map P ls))))))
   = length (filter (\<lambda>(d, l). d \<and> P l) (zip ds ls))"
  by (induction ds ls rule: list_induct2) auto

lemma one_class_per_label:
  assumes "0 \<le> l" and "l < int n"
  shows "(\<Sum>c<n. if d \<and> l = int c then 1 else 0) = (if d then (1::nat) else 0)"
proof -
  have "(\<Sum>c<n. if d \<and> l = int c then 1 else 0)
      = (\<Sum>c\<in>{..<n}. if c = nat l then (if d then (1::nat) else 0) else 0)"
    using assms by (intro sum.cong) auto
  also have "\<dots> = (if d then 1 else 0)"
    using assms by (auto simp add: sum.delta nat_less_iff)
  finally show ?thesis .
qed

lemma class_counts_partition:
  "length ds = length ls \<Longrightarrow> \<forall>l\<in>set ls. 0 \<le> l \<and> l < int n \<Longrightarrow>
   (\<Sum>c<n. length (filter (\<lambda>(d, l). d \<and> l = int c) (zip ds ls)))
     = length (filter (\<lambda>b. b) ds)"
proof (induction ds ls rule: list_induct2)
  case Nil
  then show ?case by simp
next
  case (Cons d ds l ls)
  have "(\<Sum>c<n. length (filter (\<lambda>(d, l). d \<and> l = int c) (zip (d # ds) (l # ls))))
      = (\<Sum>c<n. (if d \<and> l = int c then 1 else 0)
                 + length (filter (\<lambda>(d, l). d \<and> l = int c) (zip ds ls)))"
    by (intro sum.cong) auto
  also have "\<dots> = (if d then 1 else 0) + length (filter (\<lambda>b. b) ds)"
    using Cons by (simp add: sum.distrib one_class_per_label)
  finally show ?case by simp
qed

lemma per_class_step_count:
  assumes st: "per_class_step criterion logits labels unk_masks n_classes c = Inr (loss, k)"
    and wl: "wf_tensor labels" and wm: "wf_tensor unk_masks"
    and sh: "shape unk_masks = shape labels"
  shows "k = length (filter (\<lambda>(d, l). d \<and> l = int c) (zip (data unk_masks) (data labels)))"
proof -
  let ?idx = "tmap (\<lambda>l. l = int c) labels"
  have len: "length (data unk_masks) = length (data labels)"
    using wl wm sh by (simp add: wf_tensor_def)
  have n: "numel ?idx = length (data unk_masks)"
    using wm sh by (simp add: numel_def tmap_def wf_tensor_def)
  from st obtain valid where v: "bool_index unk_masks ?idx = Inr valid" and k: "k = count_true valid"
    by (auto simp: per_class_step_def bind_err_def Let_def split: sum.splits)
  from v have "data valid = concat (map fst (filter snd
                  (zip (map (\<lambda>x. [x]) (data unk_masks)) (map (\<lambda>l. l = int c) (data labels)))))"
    using sh n by (auto simp: bool_index_def Let_def rows_one tmap_def split: if_splits)
  then show ?thesis
    using k len by (simp add: count_true_def select_by_label_count)
qed

text \<open>
  C9. When \<open>per_class_loss\<close> returns, on labels that all lie in \<open>[0, n_classes)\<close>
  and a mask of the shape of the labels, the per-class counts it returns, one per
  class, sum to \<open>mask.sum()\<close>: every valid element is counted for exactly one class.
\<close>

theorem per_class_counts_sum_to_mask_sum:
  assumes run: "per_class_loss criterion logits labels unk_masks n_classes
                  = Inr (class_loss, class_counts)"
    and wl: "wf_tensor labels" and wm: "wf_tensor unk_masks"
    and sh: "shape unk_masks = shape labels"
    and rng: "\<forall>l\<in>set (data labels). 0 \<le> l \<and> l < int n_classes"
  shows "sum_list class_counts = count_true unk_masks \<and> length class_counts = n_classes"
proof -
  from run obtain results where
    c: "collect (map (per_class_step criterion logits labels unk_masks n_classes) [0..<n_classes])
          = Inr results"
    and cc: "class_counts = map snd results"
    by (auto simp: per_class_loss_def bind_err_def split: sum.splits)
  from collect_Inr_nth [OF c]
  have lr: "length results = n_classes"
    and nth: "\<And>i. i < n_classes \<Longrightarrow>
       per_class_step criterion logits labels unk_masks n_classes i = Inr (results ! i)"
    by auto
  have cnt: "snd (results ! i)
        = length (filter (\<lambda>(d, l). d \<and> l = int i) (zip (data unk_masks) (data labels)))"
    if "i < n_classes" for i
    using per_class_step_count [OF _ wl wm sh, of criterion logits n_classes i
            "fst (results ! i)" "snd (results ! i)"] nth [OF that]
    by simp
  have len: "length (data unk_masks) = length (data labels)"
    using wl wm sh by (simp add: wf_tensor_def)
  have "sum_list class_counts = (\<Sum>i<n_classes. snd (results ! i))"
    using lr by (simp add: cc sum_list_sum_nth atLeast0LessThan)
  also have "\<dots> = (\<Sum>i<n_classes.
        length (filter (\<lambda>(d, l). d \<and> l = int i) (zip (data unk_masks) (data labels))))"
    by (intro sum.cong) (auto simp: cnt)
  also have "\<dots> = count_true unk_masks"
    using class_counts_partition [OF len rng] by (simp add: count_true_def)
  finally show ?thesis using lr by (simp add: cc)
qed

theorem per_class_counts_sum_to_mask_sum_witness:
  "per_class_loss (\<lambda>l t m. Inr (0::real)) (Tensor [1, 1, 3, 2] [0, 0, 0, 0, 0, 0])
      (Tensor [1, 1, 3, 1] [0, 1, 1]) (Tensor [1, 1, 3, 1] [True, False, True]) 2
     = Inr ([0, 0], [1, 1])
   \<and> sum_list [1, 1] = count_true (Tensor [1, 1, 3, 1] [True, False, True])"
  using per_class_counts_sum_to_mask_sum
    [of "\<lambda>l t m. Inr (0::real)" "Tensor [1, 1, 3, 2] [0, 0, 0, 0, 0, 0]"
        "Tensor [1, 1, 3, 1] [0, 1, 1]" "Tensor [1, 1, 3, 1] [True, False, True]" 2
        "[0, 0]" "[1, 1]"]
  by (simp add: per_class_loss_def per_class_step_def count_true_def eval_defs)

end
